theory Spec2Isabelle
  imports Complex_Main "HOL-Library.Word"
begin

section \<open>Data model of the intersection module (util\_type.hpp)\<close>

text \<open>
  Lanelets and polygons come from the lanelet2 library; the accessors below only move
  them around, so they stay type parameters: \<open>'l\<close> is a lanelet (\<open>lanelet::ConstLanelet\<close>)
  and \<open>'p\<close> a polygon (\<open>lanelet::CompoundPolygon3d\<close>). \<open>lanelet::ConstLanelets\<close> and
  \<open>std::vector\<close> are lists, \<open>std::optional\<close> is \<open>option\<close>, \<open>size_t\<close> is \<open>nat\<close>. A member
  \<open>name_\<close> of the header is the field \<open>name_m\<close> here (an Isabelle name cannot end in an
  underscore).
\<close>

record ('l, 'p) IntersectionLanelets =
  attention_m :: "'l list"
  attention_non_preceding_m :: "'l list"
  conflicting_m :: "'l list"
  adjacent_m :: "'l list"
  occlusion_attention_m :: "'l list"
  attention_area_m :: "'p list"
  attention_non_preceding_area_m :: "'p list"
  conflicting_area_m :: "'p list"
  adjacent_area_m :: "'p list"
  occlusion_attention_area_m :: "'p list"
  is_prioritized_m :: bool
  first_conflicting_area_m :: "'p option"
  first_attention_area_m :: "'p option"

text \<open>The accessors of \<open>IntersectionLanelets\<close>, in the order of the header.\<close>

definition attention :: "('l, 'p) IntersectionLanelets \<Rightarrow> 'l list" where
  "attention s = (if is_prioritized_m s then attention_non_preceding_m s else attention_m s)"

definition conflicting :: "('l, 'p) IntersectionLanelets \<Rightarrow> 'l list" where
  "conflicting s = conflicting_m s"

definition adjacent :: "('l, 'p) IntersectionLanelets \<Rightarrow> 'l list" where
  "adjacent s = adjacent_m s"

definition occlusion_attention :: "('l, 'p) IntersectionLanelets \<Rightarrow> 'l list" where
  "occlusion_attention s =
     (if is_prioritized_m s then attention_non_preceding_m s else occlusion_attention_m s)"

definition attention_area :: "('l, 'p) IntersectionLanelets \<Rightarrow> 'p list" where
  "attention_area s =
     (if is_prioritized_m s then attention_non_preceding_area_m s else attention_area_m s)"

definition conflicting_area :: "('l, 'p) IntersectionLanelets \<Rightarrow> 'p list" where
  "conflicting_area s = conflicting_area_m s"

definition adjacent_area :: "('l, 'p) IntersectionLanelets \<Rightarrow> 'p list" where
  "adjacent_area s = adjacent_area_m s"

definition occlusion_attention_area :: "('l, 'p) IntersectionLanelets \<Rightarrow> 'p list" where
  "occlusion_attention_area s = occlusion_attention_area_m s"

definition first_conflicting_area :: "('l, 'p) IntersectionLanelets \<Rightarrow> 'p option" where
  "first_conflicting_area s = first_conflicting_area_m s"

definition first_attention_area :: "('l, 'p) IntersectionLanelets \<Rightarrow> 'p option" where
  "first_attention_area s = first_attention_area_m s"

text \<open>
  A default-constructed \<open>IntersectionLanelets\<close>: empty containers, the flag false and both
  first areas \<open>std::nullopt\<close> (the member initialisers of the header).
\<close>

definition IntersectionLanelets_init :: "('l, 'p) IntersectionLanelets" where
  "IntersectionLanelets_init =
     \<lparr>attention_m = [], attention_non_preceding_m = [], conflicting_m = [], adjacent_m = [],
      occlusion_attention_m = [], attention_area_m = [], attention_non_preceding_area_m = [],
      conflicting_area_m = [], adjacent_area_m = [], occlusion_attention_area_m = [],
      is_prioritized_m = False, first_conflicting_area_m = None, first_attention_area_m = None\<rparr>"

text \<open>
  An intersection whose ego lane has priority, with two attention lanelets \<open>1, 2\<close> of which
  only \<open>2\<close> is non-preceding; a polygon carries the number of its lanelet.
\<close>

definition prioritized_example :: "(nat, nat) IntersectionLanelets" where
  "prioritized_example =
     IntersectionLanelets_init
       \<lparr>attention_m := [1, 2], attention_non_preceding_m := [2], occlusion_attention_m := [1, 2],
        attention_area_m := [1, 2], attention_non_preceding_area_m := [2],
        occlusion_attention_area_m := [1, 2], is_prioritized_m := True\<rparr>"

record IntersectionStopLines =
  closest_idx :: nat
  stuck_stop_line :: "nat option"
  default_stop_line :: "nat option"
  first_attention_stop_line :: "nat option"
  occlusion_peeking_stop_line :: "nat option"
  pass_judge_line :: nat

text \<open>The member initialisers of \<open>IntersectionStopLines\<close>.\<close>

definition IntersectionStopLines_init :: IntersectionStopLines where
  "IntersectionStopLines_init =
     \<lparr>closest_idx = 0, stuck_stop_line = None, default_stop_line = None,
      first_attention_stop_line = None, occlusion_peeking_stop_line = None,
      pass_judge_line = 0\<rparr>"

datatype TrafficPrioritizedLevel = FULLY_PRIORITIZED | PARTIALLY_PRIORITIZED | NOT_PRIORITIZED


text \<open>
  The index fields of \<open>IntersectionStopLines\<close> by their declared types: the members
  declared \<open>std::optional<size_t>\<close>, and the members declared \<open>size_t\<close>, each in the
  order of the header.
\<close>

definition optional_indices :: "IntersectionStopLines \<Rightarrow> nat option list" where
  "optional_indices s =
     [stuck_stop_line s, default_stop_line s, first_attention_stop_line s,
      occlusion_peeking_stop_line s]"

definition mandatory_indices :: "IntersectionStopLines \<Rightarrow> nat list" where
  "mandatory_indices s = [closest_idx s, pass_judge_line s]"

text \<open>
  Modelled from the spec: the store into \<open>pass_judge_line\<close> made by
  \<open>generateIntersectionStopLines\<close>, whose body (util.cpp) is not among the sources. The
  spec has the pass-judge index "clamped to zero if computed negative", and the header's
  comment on the member reads "if the value is calculated negative, its value is 0". The
  computed value is a signed integer.
\<close>

definition clamp_pass_judge_line :: "int \<Rightarrow> nat" where
  "clamp_pass_judge_line v = (if v < 0 then 0 else nat v)"

definition set_pass_judge_line :: "int \<Rightarrow> IntersectionStopLines \<Rightarrow> IntersectionStopLines" where
  "set_pass_judge_line v s = s\<lparr>pass_judge_line := clamp_pass_judge_line v\<rparr>"


section \<open>Floating-point numbers of the simulator\<close>

text \<open>
  The simulator computes with \<open>double\<close> and \<open>float\<close> (IEEE 754 binary64 and binary32).
  A value is a finite real number, an infinity or NaN; the two zeros are one value here.
  A format is its precision in bits and its largest exponent; the smallest exponent is
  \<open>1 - emax\<close>.
\<close>

datatype ieee = Finite real | PlusInfinity | MinusInfinity | NaN

record fp_format =
  precision :: nat
  emax :: int

definition binary32 :: fp_format where
  "binary32 = \<lparr>precision = 24, emax = 127\<rparr>"

definition binary64 :: fp_format where
  "binary64 = \<lparr>precision = 53, emax = 1023\<rparr>"

definition pow2 :: "int \<Rightarrow> real" where
  "pow2 k = (if 0 \<le> k then 2 ^ nat k else 1 / 2 ^ nat (- k))"

text \<open>
  The binary exponent of a magnitude, found by halving (from \<open>1\<close> upwards) or doubling
  (below \<open>1\<close>) at most as often as the format has exponents.
\<close>

fun exponent_up :: "nat \<Rightarrow> real \<Rightarrow> int" where
  "exponent_up 0 x = 0"
| "exponent_up (Suc n) x = (if x < 2 then 0 else 1 + exponent_up n (x / 2))"

fun exponent_down :: "nat \<Rightarrow> real \<Rightarrow> int" where
  "exponent_down 0 x = 0"
| "exponent_down (Suc n) x = (if 1 \<le> x then 0 else exponent_down n (2 * x) - 1)"

definition fp_exponent :: "fp_format \<Rightarrow> real \<Rightarrow> int" where
  "fp_exponent fmt x =
     max (1 - emax fmt)
       (if 1 \<le> \<bar>x\<bar> then exponent_up (nat (emax fmt) + 1) \<bar>x\<bar>
        else exponent_down (nat (emax fmt)) \<bar>x\<bar>)"

text \<open>
  Rounding to nearest, ties to even: \<open>fp_quantum\<close> is the spacing of the format's numbers
  around \<open>x\<close> (subnormal spacing below the smallest exponent), \<open>fp_max\<close> the largest finite
  number; a result beyond it is an infinity.
\<close>

definition fp_quantum :: "fp_format \<Rightarrow> real \<Rightarrow> real" where
  "fp_quantum fmt x = pow2 (fp_exponent fmt x - int (precision fmt) + 1)"

definition fp_max :: "fp_format \<Rightarrow> real" where
  "fp_max fmt = (2 ^ precision fmt - 1) * pow2 (emax fmt - int (precision fmt) + 1)"

definition round_half_even :: "real \<Rightarrow> int" where
  "round_half_even y =
     (if y - of_int \<lfloor>y\<rfloor> < 1 / 2 then \<lfloor>y\<rfloor>
      else if 1 / 2 < y - of_int \<lfloor>y\<rfloor> then \<lfloor>y\<rfloor> + 1
      else if even \<lfloor>y\<rfloor> then \<lfloor>y\<rfloor>
      else \<lfloor>y\<rfloor> + 1)"

definition fp_round :: "fp_format \<Rightarrow> real \<Rightarrow> ieee" where
  "fp_round fmt x =
     (let q = fp_quantum fmt x;
          r = of_int (round_half_even (x / q)) * q
      in if fp_max fmt < r then PlusInfinity
         else if r < - fp_max fmt then MinusInfinity
         else Finite r)"

text \<open>
  Conversion to a format (\<open>float acc = ...\<close>, a store into a \<open>float32\<close> field), negation,
  addition and subtraction. A \<open>float\<close> operand of a \<open>double\<close> operation is converted to
  \<open>double\<close> first, which changes no value.
\<close>

definition fp_convert :: "fp_format \<Rightarrow> ieee \<Rightarrow> ieee" where
  "fp_convert fmt v = (case v of Finite x \<Rightarrow> fp_round fmt x | _ \<Rightarrow> v)"

definition fp_neg :: "ieee \<Rightarrow> ieee" where
  "fp_neg v =
     (case v of
        Finite x \<Rightarrow> Finite (- x)
      | PlusInfinity \<Rightarrow> MinusInfinity
      | MinusInfinity \<Rightarrow> PlusInfinity
      | NaN \<Rightarrow> NaN)"

fun fp_add :: "fp_format \<Rightarrow> ieee \<Rightarrow> ieee \<Rightarrow> ieee" where
  "fp_add fmt (Finite x) (Finite y) = fp_round fmt (x + y)"
| "fp_add fmt NaN b = NaN"
| "fp_add fmt a NaN = NaN"
| "fp_add fmt PlusInfinity MinusInfinity = NaN"
| "fp_add fmt MinusInfinity PlusInfinity = NaN"
| "fp_add fmt PlusInfinity b = PlusInfinity"
| "fp_add fmt a PlusInfinity = PlusInfinity"
| "fp_add fmt MinusInfinity b = MinusInfinity"
| "fp_add fmt a MinusInfinity = MinusInfinity"

definition fp_sub :: "fp_format \<Rightarrow> ieee \<Rightarrow> ieee \<Rightarrow> ieee" where
  "fp_sub fmt a b = fp_add fmt a (fp_neg b)"

text \<open>
  A variable or field of a format holds a value that the conversion to the format leaves
  unchanged. The functions below are defined, and the theorems about them hold, for every
  value; the examples use representable ones.
\<close>

definition representable :: "fp_format \<Rightarrow> ieee \<Rightarrow> bool" where
  "representable fmt v = (fp_convert fmt v = v)"

text \<open>
  For the examples: the \<open>double\<close> nearest to \<open>0.1\<close>, and \<open>2^-30\<close>, a number that is too
  small to change the \<open>float\<close> \<open>1\<close> when added to it.
\<close>

definition double_tenth :: real where
  "double_tenth = 3602879701896397 / 2 ^ 55"

definition small_step :: real where
  "small_step = 1 / 2 ^ 30"


section \<open>Data model of the simulator (simple\_planning\_simulator\_core.cpp)\<close>

text \<open>
  The gear is the \<open>uint8\<close> of the \<open>GearCommand\<close> message, with the message's constants
  \<open>NONE = 0\<close>, \<open>DRIVE = 2\<close>, \<open>REVERSE = 20\<close> and \<open>REVERSE_2 = 21\<close>. \<open>VehicleModelType\<close> has the
  six enumerators the simulator creates models for. The fields of the control command
  are \<open>float32\<close>.
\<close>

type_synonym GearCommand = "8 word"

definition NONE :: GearCommand where
  "NONE = 0"

definition DRIVE :: GearCommand where
  "DRIVE = 2"

definition REVERSE :: GearCommand where
  "REVERSE = 20"

definition REVERSE_2 :: GearCommand where
  "REVERSE_2 = 21"

datatype VehicleModelType =
  IDEAL_STEER_ACC | IDEAL_STEER_ACC_GEARED | DELAY_STEER_ACC | DELAY_STEER_ACC_GEARED
  | IDEAL_STEER_VEL | DELAY_STEER_VEL

record AckermannLateralCommand =
  steering_tire_angle :: ieee

record LongitudinalCommand =
  speed :: ieee
  acceleration :: ieee

record AckermannControlCommand =
  lateral :: AckermannLateralCommand
  longitudinal :: LongitudinalCommand

text \<open>
  What \<open>set_input\<close> reads and writes of the vehicle model behind \<open>vehicle_model_ptr_\<close>: its
  gear (\<open>getGear\<close>) and its input vector (\<open>setInput\<close>), an \<open>Eigen::VectorXd\<close> of dimension
  \<open>getDimU()\<close>, a list of \<open>double\<close> values here.
\<close>

record SimModelInterface =
  gear :: GearCommand
  input :: "ieee list"

record SimplePlanningSimulator =
  vehicle_model_type_m :: VehicleModelType
  vehicle_model_ptr_m :: SimModelInterface

text \<open>
  The local \<open>float acc\<close> of \<open>set_input\<close>. It is initialised with \<open>accel + acc_by_slope\<close>, a
  \<open>double\<close> sum (\<open>accel\<close> is a \<open>float\<close>, \<open>acc_by_slope\<close> a \<open>double\<close>) converted to \<open>float\<close>,
  then overwritten by the \<open>if\<close>/\<open>else if\<close> on the gear: with \<open>0.0\<close>, or with
  \<open>-accel - acc_by_slope\<close>, again a \<open>double\<close> converted to \<open>float\<close>.
\<close>

definition set_input_acc :: "GearCommand \<Rightarrow> ieee \<Rightarrow> ieee \<Rightarrow> ieee" where
  "set_input_acc g accel acc_by_slope =
     (if g = NONE then Finite 0
      else if g = REVERSE \<or> g = REVERSE_2
      then fp_convert binary32 (fp_sub binary64 (fp_neg accel) acc_by_slope)
      else fp_convert binary32 (fp_add binary64 accel acc_by_slope))"

definition set_input ::
  "SimplePlanningSimulator \<Rightarrow> AckermannControlCommand \<Rightarrow> ieee \<Rightarrow> SimplePlanningSimulator" where
  "set_input sim cmd acc_by_slope =
     (let steer = steering_tire_angle (lateral cmd);
          vel = speed (longitudinal cmd);
          accel = acceleration (longitudinal cmd);
          acc = set_input_acc (gear (vehicle_model_ptr_m sim)) accel acc_by_slope;
          u = (case vehicle_model_type_m sim of
                 IDEAL_STEER_VEL \<Rightarrow> [vel, steer]
               | DELAY_STEER_VEL \<Rightarrow> [vel, steer]
               | IDEAL_STEER_ACC \<Rightarrow> [acc, steer]
               | DELAY_STEER_ACC \<Rightarrow> [acc, steer]
               | IDEAL_STEER_ACC_GEARED \<Rightarrow> [acc, steer]
               | DELAY_STEER_ACC_GEARED \<Rightarrow> [acc, steer])
      in sim\<lparr>vehicle_model_ptr_m := (vehicle_model_ptr_m sim)\<lparr>input := u\<rparr>\<rparr>)"

text \<open>
  The vehicle models whose input vector starts with an acceleration (for the two \<open>_VEL\<close>
  models it starts with the commanded speed).
\<close>

definition acceleration_input :: "VehicleModelType \<Rightarrow> bool" where
  "acceleration_input t = (t \<noteq> IDEAL_STEER_VEL \<and> t \<noteq> DELAY_STEER_VEL)"

text \<open>
  The sum of the commanded acceleration and the slope acceleration as \<open>set_input\<close> holds
  it: added in \<open>double\<close>, stored in a \<open>float\<close>.
\<close>

definition float_sum :: "ieee \<Rightarrow> ieee \<Rightarrow> ieee" where
  "float_sum accel acc_by_slope = fp_convert binary32 (fp_add binary64 accel acc_by_slope)"

definition reverse_example :: SimplePlanningSimulator where
  "reverse_example =
     \<lparr>vehicle_model_type_m = DELAY_STEER_ACC_GEARED,
      vehicle_model_ptr_m = \<lparr>gear = REVERSE, input = [Finite 0, Finite 0]\<rparr>\<rparr>"

definition command_example :: AckermannControlCommand where
  "command_example =
     \<lparr>lateral = \<lparr>steering_tire_angle = Finite (1 / 8)\<rparr>,
      longitudinal = \<lparr>speed = Finite 3, acceleration = Finite (3 / 2)\<rparr>\<rparr>"

text \<open>
  The parts of the three messages that \<open>add_measurement_noise\<close> touches. The nested
  members of the odometry are flattened (\<open>odom.pose.pose.position.x\<close> is
  \<open>pose_position_x\<close>, \<open>odom.twist.twist.linear.x\<close> is \<open>twist_linear_x\<close>), and the
  \<open>steering_tire_angle\<close> of the steering report is \<open>report_steering_tire_angle\<close>, the name
  being taken by the command's field. The odometry's numbers are \<open>double\<close>, those of the
  two reports \<open>float32\<close>. \<open>'q\<close> is the quaternion of the pose; \<open>tf2::getYaw\<close> and
  \<open>createQuaternionFromYaw\<close> are parameters of the model.
\<close>

record 'q Odometry =
  pose_position_x :: ieee
  pose_position_y :: ieee
  pose_orientation :: 'q
  twist_linear_x :: ieee

record VelocityReport =
  longitudinal_velocity :: ieee
  lateral_velocity :: ieee
  heading_rate :: ieee

record SteeringReport =
  report_steering_tire_angle :: ieee

text \<open>
  \<open>measurement_noise_\<close>: a random engine and four normal distributions of \<open>double\<close>. A
  draw \<open>(*n.pos_dist_)(*n.rand_engine_)\<close> returns a sample and advances the engine (and
  the distribution's own cache); \<open>'g\<close> is that state, and a distribution is a function
  from the state to the sample and the next state.
\<close>

record 'g MeasurementNoise =
  rand_engine_m :: 'g
  pos_dist_m :: "'g \<Rightarrow> ieee \<times> 'g"
  vel_dist_m :: "'g \<Rightarrow> ieee \<times> 'g"
  rpy_dist_m :: "'g \<Rightarrow> ieee \<times> 'g"
  steer_dist_m :: "'g \<Rightarrow> ieee \<times> 'g"

text \<open>
  \<open>add_measurement_noise\<close>, statement by statement. The sums into the odometry are
  \<open>double\<close> sums; the yaw noise is cast to \<open>float\<close> before it is added; the sums into the
  two reports are \<open>double\<close> sums stored into \<open>float32\<close> fields.
\<close>

definition add_measurement_noise ::
  "('q \<Rightarrow> ieee) \<Rightarrow> (ieee \<Rightarrow> 'q) \<Rightarrow> 'g MeasurementNoise \<Rightarrow> 'q Odometry \<Rightarrow> VelocityReport
   \<Rightarrow> SteeringReport \<Rightarrow> 'q Odometry \<times> VelocityReport \<times> SteeringReport \<times> 'g MeasurementNoise" where
  "add_measurement_noise getYaw createQuaternionFromYaw n odom vel steer =
     (let (nx, g1) = pos_dist_m n (rand_engine_m n);
          odom1 = odom\<lparr>pose_position_x := fp_add binary64 (pose_position_x odom) nx\<rparr>;
          (ny, g2) = pos_dist_m n g1;
          odom2 = odom1\<lparr>pose_position_y := fp_add binary64 (pose_position_y odom1) ny\<rparr>;
          (velocity_noise, g3) = vel_dist_m n g2;
          odom3 = odom2\<lparr>twist_linear_x := fp_add binary64 (twist_linear_x odom2) velocity_noise\<rparr>;
          yaw = getYaw (pose_orientation odom3);
          (nyaw, g4) = rpy_dist_m n g3;
          odom4 = odom3\<lparr>pose_orientation :=
                    createQuaternionFromYaw (fp_add binary64 yaw (fp_convert binary32 nyaw))\<rparr>;
          vel1 = vel\<lparr>longitudinal_velocity :=
                    fp_convert binary32 (fp_add binary64 (longitudinal_velocity vel) velocity_noise)\<rparr>;
          (nsteer, g5) = steer_dist_m n g4;
          steer1 = steer\<lparr>report_steering_tire_angle :=
                    fp_convert binary32 (fp_add binary64 (report_steering_tire_angle steer) nsteer)\<rparr>
      in (odom4, vel1, steer1, n\<lparr>rand_engine_m := g5\<rparr>))"

text \<open>The third draw of \<open>add_measurement_noise\<close>, its local \<open>velocity_noise\<close>.\<close>

definition velocity_noise_sample :: "'g MeasurementNoise \<Rightarrow> ieee" where
  "velocity_noise_sample n =
     fst (vel_dist_m n (snd (pos_dist_m n (snd (pos_dist_m n (rand_engine_m n))))))"

text \<open>
  For the examples: an engine that counts its draws, with distributions that give no
  position, yaw and steering noise and the velocity noise \<open>small_step\<close>; an odometry and a
  velocity report that agree on the velocity \<open>1\<close>; the yaw of a pose is the pose.
\<close>

definition small_noise :: "nat MeasurementNoise" where
  "small_noise =
     \<lparr>rand_engine_m = 0,
      pos_dist_m = (\<lambda>g. (Finite 0, Suc g)),
      vel_dist_m = (\<lambda>g. (Finite small_step, Suc g)),
      rpy_dist_m = (\<lambda>g. (Finite 0, Suc g)),
      steer_dist_m = (\<lambda>g. (Finite 0, Suc g))\<rparr>"

definition unit_odometry :: "ieee Odometry" where
  "unit_odometry =
     \<lparr>pose_position_x = Finite 0, pose_position_y = Finite 0, pose_orientation = Finite 0,
      twist_linear_x = Finite 1\<rparr>"

definition unit_velocity :: VelocityReport where
  "unit_velocity =
     \<lparr>longitudinal_velocity = Finite 1, lateral_velocity = Finite 0, heading_rate = Finite 0\<rparr>"

definition zero_steer :: SteeringReport where
  "zero_steer = \<lparr>report_steering_tire_angle = Finite 0\<rparr>"


section \<open>Functions of util.hpp without a body among the sources\<close>

text \<open>
  util.hpp declares the functions of this section; their bodies (util.cpp) are not among
  the sources, so each is written from the words of the specification, with the
  signature of the header. Geometry (poses, polygons, spline interpolation) is a parameter
  of the model.
\<close>

subsection \<open>Traffic priority\<close>

text \<open>
  Modelled from the spec: the signal state of a lane (\<open>TrafficSignalStamped\<close> is not among
  the sources), as the specification distinguishes it: "red-or-arrow, amber, green", and
  "unknown". A state missing from the snapshot is \<open>None\<close> of the map \<open>tl_infos\<close>, which is
  keyed by lane id.
\<close>

datatype SignalState = Red | Arrow | Amber | Green | Unknown

text \<open>
  Modelled from the spec: \<open>getTrafficPrioritizedLevel\<close>. "A 3-valued ordinal
  {FULLY_PRIORITIZED, PARTIALLY_PRIORITIZED, NOT_PRIORITIZED} derived from the signal
  state of the target lane (red-or-arrow, amber, green respectively) [...] unknown/missing
  signal state must map to a documented default (NOT_PRIORITIZED is the safe default)".
  The lanelet is given by its id.
\<close>

definition getTrafficPrioritizedLevel ::
  "int \<Rightarrow> (int \<rightharpoonup> SignalState) \<Rightarrow> TrafficPrioritizedLevel" where
  "getTrafficPrioritizedLevel lane tl_infos =
     (case tl_infos lane of
        None \<Rightarrow> NOT_PRIORITIZED
      | Some Red \<Rightarrow> FULLY_PRIORITIZED
      | Some Arrow \<Rightarrow> FULLY_PRIORITIZED
      | Some Amber \<Rightarrow> PARTIALLY_PRIORITIZED
      | Some Green \<Rightarrow> NOT_PRIORITIZED
      | Some Unknown \<Rightarrow> NOT_PRIORITIZED)"

subsection \<open>Stuck vehicles\<close>

text \<open>
  Modelled from the spec: a predicted object (a message type that is not among the
  sources) with what the stuck check reads of it, "a footprint polygon" (\<open>'f\<close>) and "its
  speed". \<open>DebugData\<close> of util\_type.hpp is reduced to \<open>stuck_targets\<close>, the member that
  receives the objects classified as stuck.
\<close>

record 'f PredictedObject =
  footprint :: 'f
  object_speed :: real

record 'f DebugData =
  stuck_targets :: "'f PredictedObject list"

text \<open>
  Modelled from the spec: \<open>checkStuckVehicleInIntersection\<close>. "For each predicted object,
  builds its current footprint, tests intersection with a detection polygon [...] and
  classifies the object as stuck only if its speed is below a threshold and it overlaps
  the region". \<open>intersects\<close> is the polygon test of footprint against area, a parameter.
  \<open>stuck_vehicles\<close> is the loop over the objects; the result of the check is whether any
  object was classified, and the classified objects go to the debug data.
\<close>

fun stuck_vehicles ::
  "('f \<Rightarrow> 'a \<Rightarrow> bool) \<Rightarrow> 'f PredictedObject list \<Rightarrow> 'a \<Rightarrow> real \<Rightarrow> 'f PredictedObject list" where
  "stuck_vehicles intersects [] area thr = []"
| "stuck_vehicles intersects (obj # objs) area thr =
     (if object_speed obj < thr \<and> intersects (footprint obj) area
      then obj # stuck_vehicles intersects objs area thr
      else stuck_vehicles intersects objs area thr)"

definition checkStuckVehicleInIntersection ::
  "('f \<Rightarrow> 'a \<Rightarrow> bool) \<Rightarrow> 'f PredictedObject list \<Rightarrow> 'a \<Rightarrow> real \<Rightarrow> 'f DebugData
   \<Rightarrow> bool \<times> 'f DebugData" where
  "checkStuckVehicleInIntersection intersects objects stuck_vehicle_detect_area
       stuck_vehicle_vel_thr debug_data =
     (let stuck = stuck_vehicles intersects objects stuck_vehicle_detect_area
                    stuck_vehicle_vel_thr
      in (stuck \<noteq> [], debug_data\<lparr>stuck_targets := stuck_targets debug_data @ stuck\<rparr>))"

text \<open>
  Three objects for the examples: a moving car and a standing car inside the detection
  area \<open>{1, 2}\<close>, and a standing car outside it. A footprint is a cell number, and it
  intersects an area, a set of cells, when it is a member.
\<close>

definition moving_inside :: "nat PredictedObject" where
  "moving_inside = \<lparr>footprint = 1, object_speed = 5\<rparr>"

definition standing_inside :: "nat PredictedObject" where
  "standing_inside = \<lparr>footprint = 2, object_speed = 1 / 10\<rparr>"

definition standing_outside :: "nat PredictedObject" where
  "standing_outside = \<lparr>footprint = 3, object_speed = 0\<rparr>"

definition cell_in :: "nat \<Rightarrow> nat set \<Rightarrow> bool" where
  "cell_in c area = (c \<in> area)"

subsection \<open>Interpolated path\<close>














subsection \<open>First conflicting and attention area\<close>

text \<open>
  Modelled from the spec: the search for a "first" area. "The first conflicting/attention
  polygon is the one whose interpolated-path overlap interval starts earliest."
  \<open>entry a\<close> is the index at which the interpolated path first enters the polygon \<open>a\<close>
  inside the lane interval (\<open>getFirstPointInsidePolygon\<close> of util.hpp, geometry and a
  parameter here), \<open>None\<close> when the path does not enter it. Of two polygons entered at the
  same index the earlier in the list is kept.
\<close>

fun earliest_area :: "('p \<Rightarrow> nat option) \<Rightarrow> 'p list \<Rightarrow> (nat \<times> 'p) option" where
  "earliest_area entry [] = None"
| "earliest_area entry (a # as) =
     (case entry a of
        None \<Rightarrow> earliest_area entry as
      | Some i \<Rightarrow>
          (case earliest_area entry as of
             None \<Rightarrow> Some (i, a)
           | Some (j, b) \<Rightarrow> if j < i then Some (j, b) else Some (i, a)))"

definition first_area :: "('p \<Rightarrow> nat option) \<Rightarrow> 'p list \<Rightarrow> 'p option" where
  "first_area entry areas = map_option snd (earliest_area entry areas)"

text \<open>
  Modelled from the spec: \<open>IntersectionLanelets::update\<close> (declared in util\_type.hpp,
  body not among the sources). It stores the priority flag and finds the first areas,
  which are "fixed once computed and never replaced even if the live attention set
  changes across cycles": a first area that is present is kept, an empty one is searched
  among the current polygons. The interpolated path enters through \<open>entry\<close>.
\<close>

definition update ::
  "('p \<Rightarrow> nat option) \<Rightarrow> bool \<Rightarrow> ('l, 'p) IntersectionLanelets \<Rightarrow> ('l, 'p) IntersectionLanelets" where
  "update entry is_prioritized s =
     s\<lparr>is_prioritized_m := is_prioritized,
       first_conflicting_area_m :=
         (case first_conflicting_area_m s of
            Some a \<Rightarrow> Some a
          | None \<Rightarrow> first_area entry (conflicting_area_m s)),
       first_attention_area_m :=
         (case first_attention_area_m s of
            Some a \<Rightarrow> Some a
          | None \<Rightarrow> first_area entry (attention_area_m s))\<rparr>"

text \<open>
  Modelled from the spec: the state that outlives a planning cycle. "The first
  conflicting/attention area persistence across cycles is [...] initialized empty, set
  once per distinct associative-id set [...]. Model this as an explicitly owned cache
  keyed by lane-id set."
\<close>

record 'p FirstAreaCache =
  first_conflicting_cache :: "int set \<rightharpoonup> 'p"
  first_attention_cache :: "int set \<rightharpoonup> 'p"

definition FirstAreaCache_init :: "'p FirstAreaCache" where
  "FirstAreaCache_init =
     \<lparr>first_conflicting_cache = Map.empty, first_attention_cache = Map.empty\<rparr>"

text \<open>
  Modelled from the spec: one computation of \<open>IntersectionLanelets\<close> in a planning cycle.
  "Rebuilt each cycle from the routing graph and the assigned lanelet; the first fields
  persist by reuse across cycles keyed on the associative lane-id set." \<open>objective\<close> is
  the value that \<open>getObjectiveLanelets\<close> returns in this cycle (the classification over
  the routing graph is not modelled); its first areas are taken from the cache, \<open>update\<close>
  runs, and the cache keeps the first areas that are now present.
\<close>

definition recompute_IntersectionLanelets ::
  "('p \<Rightarrow> nat option) \<Rightarrow> bool \<Rightarrow> int set \<Rightarrow> ('l, 'p) IntersectionLanelets \<Rightarrow> 'p FirstAreaCache
   \<Rightarrow> ('l, 'p) IntersectionLanelets \<times> 'p FirstAreaCache" where
  "recompute_IntersectionLanelets entry is_prioritized associative_ids objective cache =
     (let reused = objective
            \<lparr>first_conflicting_area_m := first_conflicting_cache cache associative_ids,
             first_attention_area_m := first_attention_cache cache associative_ids\<rparr>;
          s = update entry is_prioritized reused
      in (s, \<lparr>first_conflicting_cache =
                 (first_conflicting_cache cache)(associative_ids := first_conflicting_area_m s),
              first_attention_cache =
                 (first_attention_cache cache)(associative_ids := first_attention_area_m s)\<rparr>))"

text \<open>
  For the examples: polygons are numbers, and the path enters polygon \<open>7\<close> at index \<open>3\<close>,
  polygon \<open>9\<close> at index \<open>1\<close> and no other polygon. Three results of the lanelet
  classification, with different conflicting and attention polygons.
\<close>

definition enters_7_9 :: "nat \<Rightarrow> nat option" where
  "enters_7_9 a = (if a = 7 then Some 3 else if a = 9 then Some 1 else None)"

definition objective_5 :: "(nat, nat) IntersectionLanelets" where
  "objective_5 =
     IntersectionLanelets_init \<lparr>attention_area_m := [5], conflicting_area_m := [5]\<rparr>"

definition objective_5_7 :: "(nat, nat) IntersectionLanelets" where
  "objective_5_7 =
     IntersectionLanelets_init \<lparr>attention_area_m := [7], conflicting_area_m := [5, 7]\<rparr>"

definition objective_9 :: "(nat, nat) IntersectionLanelets" where
  "objective_9 =
     IntersectionLanelets_init \<lparr>attention_area_m := [9], conflicting_area_m := [9, 7]\<rparr>"

subsection \<open>Stop lines\<close>





















section \<open>Accessors under priority\<close>

lemma attention_switches:
  "attention s = (if is_prioritized_m s then attention_non_preceding_m s else attention_m s)"
  by (simp add: attention_def)

lemma occlusion_attention_switches:
  "occlusion_attention s =
     (if is_prioritized_m s then attention_non_preceding_m s else occlusion_attention_m s)"
  by (simp add: occlusion_attention_def)

lemma attention_area_switches:
  "attention_area s =
     (if is_prioritized_m s then attention_non_preceding_area_m s else attention_area_m s)"
  by (simp add: attention_area_def)

lemma occlusion_attention_area_fixed:
  "occlusion_attention_area (s\<lparr>is_prioritized_m := b\<rparr>) = occlusion_attention_area_m s"
  by (simp add: occlusion_attention_area_def)

text \<open>
  C5. With \<open>is_prioritized_m\<close> set, \<open>attention()\<close>, \<open>occlusion_attention()\<close> and
  \<open>attention_area()\<close> return the non-preceding lists, but \<open>occlusion_attention_area()\<close>
  has no branch on the flag: in the prioritized example it still returns the full polygon
  list \<open>[1, 2]\<close>, not the non-preceding polygons \<open>[2]\<close> that match the lanelets
  \<open>occlusion_attention()\<close> returns.
\<close>

theorem occlusion_attention_area_prioritized:
  "is_prioritized_m prioritized_example
   \<and> attention prioritized_example = [2]
   \<and> occlusion_attention prioritized_example = [2]
   \<and> attention_area prioritized_example = [2]
   \<and> occlusion_attention_area prioritized_example = [1, 2]
   \<and> occlusion_attention_area prioritized_example
       \<noteq> attention_non_preceding_area_m prioritized_example"
  by (simp add: prioritized_example_def IntersectionLanelets_init_def attention_def
      occlusion_attention_def attention_area_def occlusion_attention_area_def)


section \<open>The stop-line record\<close>

lemma stop_lines_determined:
  "optional_indices s = optional_indices t \<Longrightarrow> mandatory_indices s = mandatory_indices t
   \<Longrightarrow> s = (t :: IntersectionStopLines)"
  by (cases s, cases t) (simp add: optional_indices_def mandatory_indices_def)

text \<open>
  C8, as stated: five optional indices next to the pass-judge index. The record has four
  members of type \<open>std::optional<size_t>\<close>; \<open>closest_idx\<close>, the fifth index next to the
  pass-judge one, is a plain \<open>size_t\<close>.
\<close>

theorem stop_lines_five_optional_counterexample:
  "\<not> (length (optional_indices IntersectionStopLines_init) = 5
       \<and> length (mandatory_indices IntersectionStopLines_init) = 1)"
  by (simp add: optional_indices_def mandatory_indices_def)

text \<open>
  C8, amended. An \<open>IntersectionStopLines\<close> value is four optional indices (stuck, default,
  first-attention and occlusion-peeking stop line) and two mandatory ones (\<open>closest_idx\<close>
  and \<open>pass_judge_line\<close>): these six determine the value, the optional ones start absent
  and the mandatory ones at zero. Storing a computed pass-judge value stores zero when the
  value is negative and the value itself otherwise, and changes no other index.
\<close>

theorem stop_lines_record:
  "length (optional_indices s) = 4 \<and> length (mandatory_indices s) = 2
   \<and> (optional_indices s = optional_indices t \<and> mandatory_indices s = mandatory_indices t
        \<longrightarrow> s = t)
   \<and> optional_indices IntersectionStopLines_init = [None, None, None, None]
   \<and> mandatory_indices IntersectionStopLines_init = [0, 0]
   \<and> (v < 0 \<longrightarrow> pass_judge_line (set_pass_judge_line v s) = 0)
   \<and> (0 \<le> v \<longrightarrow> int (pass_judge_line (set_pass_judge_line v s)) = v)
   \<and> optional_indices (set_pass_judge_line v s) = optional_indices s
   \<and> closest_idx (set_pass_judge_line v s) = closest_idx s"
proof -
  have "optional_indices s = optional_indices t \<and> mandatory_indices s = mandatory_indices t
        \<longrightarrow> s = t"
    using stop_lines_determined by blast
  moreover have "optional_indices IntersectionStopLines_init = [None, None, None, None]"
    and "mandatory_indices IntersectionStopLines_init = [0, 0]"
    by (simp_all add: optional_indices_def mandatory_indices_def IntersectionStopLines_init_def)
  ultimately show ?thesis
    by (simp add: optional_indices_def mandatory_indices_def set_pass_judge_line_def
        clamp_pass_judge_line_def)
qed

theorem stop_lines_record_witness:
  "pass_judge_line (set_pass_judge_line (- 3) (IntersectionStopLines_init\<lparr>closest_idx := 7\<rparr>)) = 0
   \<and> pass_judge_line (set_pass_judge_line 5 IntersectionStopLines_init) = 5
   \<and> set_pass_judge_line 0 IntersectionStopLines_init = IntersectionStopLines_init"
proof -
  let ?s = "IntersectionStopLines_init\<lparr>closest_idx := 7\<rparr>"
  let ?z = "set_pass_judge_line 0 IntersectionStopLines_init"
  have neg: "pass_judge_line (set_pass_judge_line (- 3) ?s) = 0"
    using stop_lines_record [of ?s ?s "- 3"] by simp
  have pos: "pass_judge_line (set_pass_judge_line 5 IntersectionStopLines_init) = 5"
    using stop_lines_record [of IntersectionStopLines_init IntersectionStopLines_init 5]
    by simp
  have "optional_indices ?z = optional_indices IntersectionStopLines_init"
    and "mandatory_indices ?z = mandatory_indices IntersectionStopLines_init"
    by (simp_all add: optional_indices_def mandatory_indices_def set_pass_judge_line_def
        clamp_pass_judge_line_def IntersectionStopLines_init_def)
  then have "?z = IntersectionStopLines_init"
    using stop_lines_record [of ?z IntersectionStopLines_init 0] by blast
  with neg pos show ?thesis by simp
qed



section \<open>Floating-point rounding\<close>

lemma round_half_even_minus: "round_half_even (- y) = - round_half_even y"
proof (cases "y \<in> \<int>")
  case True
  then obtain k where "y = of_int k" by (auto elim: Ints_cases)
  then show ?thesis by (simp add: round_half_even_def)
next
  case False
  then have ne: "y \<noteq> of_int \<lfloor>y\<rfloor>"
    by (metis Ints_of_int)
  from ne have f: "\<lfloor>- y\<rfloor> = - \<lfloor>y\<rfloor> - 1"
    by (simp add: floor_minus ceiling_altdef)
  have d: "- y - of_int (- \<lfloor>y\<rfloor> - 1) = 1 - (y - of_int \<lfloor>y\<rfloor>)"
    by simp
  show ?thesis
    unfolding round_half_even_def f d using ne by auto
qed

lemma pow2_pos: "0 < pow2 k"
  by (simp add: pow2_def)

lemma fp_max_nonneg: "0 \<le> fp_max fmt"
  using pow2_pos [of "emax fmt - int (precision fmt) + 1"] by (simp add: fp_max_def)

lemma fp_quantum_minus: "fp_quantum fmt (- x) = fp_quantum fmt x"
  by (simp add: fp_quantum_def fp_exponent_def)

lemma fp_round_minus: "fp_round fmt (- x) = fp_neg (fp_round fmt x)"
  using fp_max_nonneg [of fmt]
  by (simp add: fp_round_def fp_quantum_minus round_half_even_minus fp_neg_def Let_def)

lemma fp_convert_neg: "fp_convert fmt (fp_neg v) = fp_neg (fp_convert fmt v)"
proof (cases v)
  case (Finite x)
  then show ?thesis
    using fp_round_minus [of fmt x] by (simp add: fp_convert_def fp_neg_def)
qed (simp_all add: fp_convert_def fp_neg_def)

lemma fp_add_neg: "fp_add fmt (fp_neg a) (fp_neg b) = fp_neg (fp_add fmt a b)"
proof (cases a; cases b)
  fix x y
  assume "a = Finite x" "b = Finite y"
  moreover have "- x + - y = - (x + y)" by simp
  ultimately show ?thesis
    using fp_round_minus [of fmt "x + y"] by (simp add: fp_neg_def)
qed (simp_all add: fp_neg_def)

lemma exponent_up_step:
  "0 < n \<Longrightarrow> exponent_up n x = (if x < 2 then 0 else 1 + exponent_up (n - 1) (x / 2))"
  by (cases n) simp_all

lemma exponent_down_step:
  "0 < n \<Longrightarrow> exponent_down n x = (if 1 \<le> x then 0 else exponent_down (n - 1) (2 * x) - 1)"
  by (cases n) simp_all

text \<open>
  The rounding is what binary floating point asks for: the exponent found by the search
  is the binary exponent of the magnitude (in the range of normal numbers), and a finite
  result is a multiple of the spacing at most half a spacing away.
\<close>

lemma round_half_even_nearest: "\<bar>of_int (round_half_even y) - y\<bar> \<le> 1 / 2"
proof -
  have "of_int \<lfloor>y\<rfloor> \<le> y" "y < of_int \<lfloor>y\<rfloor> + 1"
    by linarith+
  then show ?thesis
    unfolding round_half_even_def by (simp add: abs_if) linarith
qed

lemma pow2_powi: "pow2 k = 2 powi k"
  by (simp add: pow2_def power_int_def inverse_eq_divide power_one_over)

lemma pow2_pred: "pow2 (k - 1) = pow2 k / 2"
  by (simp add: pow2_powi power_int_diff)

lemma exponent_up_correct:
  "1 \<le> x \<Longrightarrow> x < 2 ^ n \<Longrightarrow>
     pow2 (exponent_up n x) \<le> x \<and> x < 2 * pow2 (exponent_up n x)"
proof (induction n arbitrary: x)
  case 0
  then show ?case by simp
next
  case (Suc n)
  show ?case
  proof (cases "x < 2")
    case True
    with Suc.prems show ?thesis by (simp add: pow2_def)
  next
    case False
    with Suc.prems have "1 \<le> x / 2" "x / 2 < 2 ^ n" by simp_all
    from Suc.IH [OF this] False show ?thesis
      using pow2_pred [of "1 + exponent_up n (x / 2)"] by simp
  qed
qed

lemma exponent_down_correct:
  "0 < x \<Longrightarrow> x < 2 \<Longrightarrow> 1 \<le> 2 ^ n * x \<Longrightarrow>
     pow2 (exponent_down (Suc n) x) \<le> x \<and> x < 2 * pow2 (exponent_down (Suc n) x)"
proof (induction n arbitrary: x)
  case 0
  then show ?case by (simp add: pow2_def)
next
  case (Suc n)
  show ?case
  proof (cases "1 \<le> x")
    case True
    with Suc.prems show ?thesis by (simp add: pow2_def)
  next
    case False
    with Suc.prems have "0 < 2 * x" "2 * x < 2" "1 \<le> 2 ^ n * (2 * x)" by simp_all
    from Suc.IH [OF this] False show ?thesis
      using pow2_pred [of "exponent_down (Suc n) (2 * x)"] by simp
  qed
qed

lemma pow2_less_cancel: "pow2 a < pow2 b \<Longrightarrow> a < b"
  unfolding pow2_powi
  by (metis linorder_not_le one_less_numeral_iff power_int_increasing semiring_norm(76) order.strict_iff_not)

lemma fp_exponent_correct:
  assumes "1 \<le> emax fmt" "pow2 (1 - emax fmt) \<le> \<bar>x\<bar>" "\<bar>x\<bar> < 2 ^ (nat (emax fmt) + 1)"
  shows "pow2 (fp_exponent fmt x) \<le> \<bar>x\<bar> \<and> \<bar>x\<bar> < 2 * pow2 (fp_exponent fmt x)"
proof (cases "1 \<le> \<bar>x\<bar>")
  case True
  from exponent_up_correct [OF True assms(3)]
  have e: "pow2 (exponent_up (nat (emax fmt) + 1) \<bar>x\<bar>) \<le> \<bar>x\<bar>"
    "\<bar>x\<bar> < 2 * pow2 (exponent_up (nat (emax fmt) + 1) \<bar>x\<bar>)"
    by simp_all
  have "pow2 0 \<le> \<bar>x\<bar>" using True by (simp add: pow2_def)
  with e(2) have "pow2 0 < pow2 (exponent_up (nat (emax fmt) + 1) \<bar>x\<bar> + 1)"
    using pow2_pred [of "exponent_up (nat (emax fmt) + 1) \<bar>x\<bar> + 1"] by simp
  then have "0 \<le> exponent_up (nat (emax fmt) + 1) \<bar>x\<bar>"
    using pow2_less_cancel by fastforce
  with assms(1) have "fp_exponent fmt x = exponent_up (nat (emax fmt) + 1) \<bar>x\<bar>"
    using True by (simp add: fp_exponent_def)
  with e show ?thesis by simp
next
  case False
  define n where "n = nat (emax fmt) - 1"
  have n: "nat (emax fmt) = Suc n" "emax fmt = int n + 1"
    using assms(1) by (simp_all add: n_def)
  have "pow2 (1 - emax fmt) = 1 / 2 ^ n"
    using n by (simp add: pow2_def)
  with assms(2) have "1 \<le> 2 ^ n * \<bar>x\<bar>"
    by (simp add: field_simps)
  moreover from this have "0 < \<bar>x\<bar>"
    by (metis abs_ge_zero linorder_not_le mult_zero_right not_one_le_zero order_le_less)
  moreover have "\<bar>x\<bar> < 2" using False by simp
  ultimately have e: "pow2 (exponent_down (Suc n) \<bar>x\<bar>) \<le> \<bar>x\<bar>"
    "\<bar>x\<bar> < 2 * pow2 (exponent_down (Suc n) \<bar>x\<bar>)"
    using exponent_down_correct [of "\<bar>x\<bar>" n] by simp_all
  from assms(2) e(2) have "pow2 (1 - emax fmt) < pow2 (exponent_down (Suc n) \<bar>x\<bar> + 1)"
    using pow2_pred [of "exponent_down (Suc n) \<bar>x\<bar> + 1"] by simp
  then have "1 - emax fmt \<le> exponent_down (Suc n) \<bar>x\<bar>"
    using pow2_less_cancel by fastforce
  then have "fp_exponent fmt x = exponent_down (Suc n) \<bar>x\<bar>"
    using False n by (simp add: fp_exponent_def)
  with e show ?thesis by simp
qed

lemma fp_round_nearest:
  assumes "fp_round fmt x = Finite r"
  shows "\<bar>r - x\<bar> \<le> fp_quantum fmt x / 2"
    and "\<exists>k. r = of_int k * fp_quantum fmt x"
proof -
  let ?q = "fp_quantum fmt x"
  have q: "0 < ?q" by (simp add: fp_quantum_def pow2_pos)
  from assms have r: "r = of_int (round_half_even (x / ?q)) * ?q"
    by (simp add: fp_round_def Let_def split: if_splits)
  then show "\<exists>k. r = of_int k * ?q" by blast
  have "\<bar>of_int (round_half_even (x / ?q)) - x / ?q\<bar> * ?q \<le> 1 / 2 * ?q"
    using round_half_even_nearest [of "x / ?q"] q by (simp add: mult_right_mono)
  moreover have "\<bar>of_int (round_half_even (x / ?q)) - x / ?q\<bar> * ?q = \<bar>r - x\<bar>"
  proof -
    have "(of_int (round_half_even (x / ?q)) - x / ?q) * ?q = r - x"
      using q unfolding r by (simp add: left_diff_distrib)
    then have "\<bar>r - x\<bar> = \<bar>of_int (round_half_even (x / ?q)) - x / ?q\<bar> * \<bar>?q\<bar>"
      by (metis abs_mult)
    with q show ?thesis by simp
  qed
  ultimately show "\<bar>r - x\<bar> \<le> ?q / 2" by simp
qed

text \<open>
  Roundings of the examples: \<open>1 + 2^-30\<close> is a \<open>double\<close> and rounds to the \<open>float\<close> \<open>1\<close>;
  \<open>1.75\<close> is a \<open>float\<close>; \<open>1.5 + 0.1\<close> rounds to the \<open>double\<close> nearest to \<open>1.6\<close> and then to
  the \<open>float\<close> \<open>1.60000002384185791015625\<close>.
\<close>

lemma example_values_representable:
  "representable binary32 (Finite 0)" "representable binary32 (Finite 1)"
  "representable binary32 (Finite (3 / 2))" "representable binary32 (Finite (1 / 8))"
  "representable binary32 (Finite 3)"
  "representable binary64 (Finite (1 / 4))" "representable binary64 (Finite double_tenth)"
  "representable binary64 (Finite small_step)" "representable binary64 (Finite 1)"
  by (simp_all add: representable_def fp_convert_def fp_round_def fp_quantum_def
      fp_exponent_def binary32_def binary64_def exponent_up_step exponent_down_step pow2_def
      fp_max_def round_half_even_def Let_def double_tenth_def small_step_def)

lemma round_small_sum:
  "fp_round binary64 (1 + small_step) = Finite (1 + small_step)"
  "fp_round binary32 (1 + small_step) = Finite 1"
  by (simp_all add: fp_round_def fp_quantum_def fp_exponent_def binary32_def binary64_def
      exponent_up_step pow2_def fp_max_def round_half_even_def Let_def small_step_def)

lemma round_seven_quarters:
  "fp_round binary64 (3 / 2 + 1 / 4) = Finite (7 / 4)"
  "fp_round binary32 (7 / 4) = Finite (7 / 4)"
  by (simp_all add: fp_round_def fp_quantum_def fp_exponent_def binary32_def binary64_def
      exponent_up_step pow2_def fp_max_def round_half_even_def Let_def)

lemma round_one_point_six:
  "fp_round binary64 (3 / 2 + double_tenth) = Finite (3602879701896397 / 2 ^ 51)"
  "fp_round binary32 (3602879701896397 / 2 ^ 51) = Finite (13421773 / 2 ^ 23)"
  by (simp_all add: fp_round_def fp_quantum_def fp_exponent_def binary32_def binary64_def
      exponent_up_step pow2_def fp_max_def round_half_even_def Let_def double_tenth_def)


section \<open>The simulator's input and measurement noise\<close>

lemma gear_constants_distinct:
  "REVERSE \<noteq> NONE" "REVERSE_2 \<noteq> NONE" "DRIVE \<noteq> NONE" "DRIVE \<noteq> REVERSE" "DRIVE \<noteq> REVERSE_2"
  by (simp_all add: NONE_def DRIVE_def REVERSE_def REVERSE_2_def)

lemma float_sum_negated:
  "fp_convert binary32 (fp_sub binary64 (fp_neg a) b) = fp_neg (float_sum a b)"
  by (simp add: fp_sub_def float_sum_def fp_add_neg fp_convert_neg)

lemma set_input_acc_cases:
  "set_input_acc g a b =
     (if g = NONE then Finite 0
      else if g = REVERSE \<or> g = REVERSE_2 then fp_neg (float_sum a b)
      else float_sum a b)"
  by (simp add: set_input_acc_def float_sum_negated) (simp add: float_sum_def)

lemma set_input_vector:
  "input (vehicle_model_ptr_m (set_input sim cmd s)) =
     [if acceleration_input (vehicle_model_type_m sim)
      then set_input_acc (gear (vehicle_model_ptr_m sim)) (acceleration (longitudinal cmd)) s
      else speed (longitudinal cmd),
      steering_tire_angle (lateral cmd)]"
  by (cases "vehicle_model_type_m sim")
     (simp_all add: set_input_def acceleration_input_def Let_def)

lemma float_sum_examples:
  "float_sum (Finite 1) (Finite small_step) = Finite 1"
  "float_sum (Finite (3 / 2)) (Finite (1 / 4)) = Finite (7 / 4)"
  "float_sum (Finite (3 / 2)) (Finite double_tenth) = Finite (13421773 / 2 ^ 23)"
  by (simp_all only: float_sum_def fp_add.simps fp_convert_def ieee.case round_small_sum
      round_seven_quarters round_one_point_six)

lemma rounded_sums_differ:
  "Finite (- (13421773 / 2 ^ 23)) \<noteq> Finite (- (3 / 2 + double_tenth))"
  "Finite 1 \<noteq> Finite (1 + small_step)"
  by (simp_all add: double_tenth_def small_step_def)

text \<open>
  A simulator with an acceleration model in drive, and the command to accelerate by \<open>1\<close>.
\<close>

lemma drive_example_input:
  "input (vehicle_model_ptr_m
     (set_input
        \<lparr>vehicle_model_type_m = IDEAL_STEER_ACC,
         vehicle_model_ptr_m = \<lparr>gear = DRIVE, input = [Finite 0, Finite 0]\<rparr>\<rparr>
        \<lparr>lateral = \<lparr>steering_tire_angle = Finite 0\<rparr>,
         longitudinal = \<lparr>speed = Finite 0, acceleration = Finite 1\<rparr>\<rparr>
        (Finite small_step))) ! 0 = Finite 1"
  by (simp add: set_input_vector set_input_acc_cases acceleration_input_def
      gear_constants_distinct float_sum_examples)

lemma reverse_example_input:
  "input (vehicle_model_ptr_m (set_input reverse_example command_example (Finite double_tenth)))
     ! 0 = Finite (- (13421773 / 2 ^ 23))"
proof -
  have "input (vehicle_model_ptr_m
          (set_input reverse_example command_example (Finite double_tenth))) ! 0
        = fp_neg (float_sum (Finite (3 / 2)) (Finite double_tenth))"
    by (simp add: set_input_vector set_input_acc_cases acceleration_input_def
        reverse_example_def command_example_def gear_constants_distinct)
  then show ?thesis
    by (simp only: float_sum_examples fp_neg_def ieee.case)
qed

text \<open>
  C9, as stated. In reverse gear, with the commanded acceleration \<open>1.5\<close> and the slope
  acceleration \<open>0.1\<close> (as a \<open>double\<close>), the model receives \<open>-1.60000002384185791015625\<close>,
  which is not the negated sum; in drive, with \<open>1\<close> and \<open>2^-30\<close>, it receives \<open>1\<close>, which
  is not the sum.
\<close>

theorem set_input_acceleration_counterexample:
  "input (vehicle_model_ptr_m (set_input reverse_example command_example (Finite double_tenth)))
     ! 0 = Finite (- (13421773 / 2 ^ 23))
   \<and> Finite (- (13421773 / 2 ^ 23)) \<noteq> Finite (- (3 / 2 + double_tenth))
   \<and> input (vehicle_model_ptr_m
        (set_input
           \<lparr>vehicle_model_type_m = IDEAL_STEER_ACC,
            vehicle_model_ptr_m = \<lparr>gear = DRIVE, input = [Finite 0, Finite 0]\<rparr>\<rparr>
           \<lparr>lateral = \<lparr>steering_tire_angle = Finite 0\<rparr>,
            longitudinal = \<lparr>speed = Finite 0, acceleration = Finite 1\<rparr>\<rparr>
           (Finite small_step))) ! 0 = Finite 1
   \<and> Finite 1 \<noteq> Finite (1 + small_step)"
  using reverse_example_input drive_example_input rounded_sums_differ by blast

text \<open>
  C9, amended. For a vehicle model driven by acceleration, the first component of the
  input that \<open>set_input\<close> hands to the model is exactly zero when the gear is \<open>NONE\<close>;
  otherwise it is built from the sum of the commanded acceleration and the slope
  acceleration, added in double precision and rounded to single precision: the negation
  of that rounded sum when the gear is \<open>REVERSE\<close> or \<open>REVERSE_2\<close>, the rounded sum itself
  for every other gear. The gear and the model type are left as they were.
\<close>

theorem set_input_acceleration_rounded:
  assumes "acceleration_input (vehicle_model_type_m sim)"
  shows "input (vehicle_model_ptr_m (set_input sim cmd acc_by_slope)) ! 0 =
           (if gear (vehicle_model_ptr_m sim) = NONE then Finite 0
            else if gear (vehicle_model_ptr_m sim) = REVERSE
                    \<or> gear (vehicle_model_ptr_m sim) = REVERSE_2
                 then fp_neg (fp_convert binary32
                        (fp_add binary64 (acceleration (longitudinal cmd)) acc_by_slope))
                 else fp_convert binary32
                        (fp_add binary64 (acceleration (longitudinal cmd)) acc_by_slope))
         \<and> gear (vehicle_model_ptr_m (set_input sim cmd acc_by_slope))
             = gear (vehicle_model_ptr_m sim)
         \<and> vehicle_model_type_m (set_input sim cmd acc_by_slope) = vehicle_model_type_m sim"
proof -
  have "input (vehicle_model_ptr_m (set_input sim cmd acc_by_slope)) ! 0 =
          set_input_acc (gear (vehicle_model_ptr_m sim)) (acceleration (longitudinal cmd))
            acc_by_slope"
    using assms by (simp add: set_input_vector)
  moreover have "gear (vehicle_model_ptr_m (set_input sim cmd acc_by_slope))
                   = gear (vehicle_model_ptr_m sim)"
    and "vehicle_model_type_m (set_input sim cmd acc_by_slope) = vehicle_model_type_m sim"
    by (simp_all add: set_input_def Let_def)
  ultimately show ?thesis
    by (simp add: set_input_acc_cases float_sum_def)
qed

theorem set_input_acceleration_rounded_witness:
  "acceleration_input (vehicle_model_type_m reverse_example)
   \<and> input (vehicle_model_ptr_m (set_input reverse_example command_example (Finite (1 / 4)))) ! 0
       = Finite (- (7 / 4))"
proof -
  have h: "acceleration_input (vehicle_model_type_m reverse_example)"
    by (simp add: reverse_example_def acceleration_input_def)
  have g: "gear (vehicle_model_ptr_m reverse_example) = REVERSE"
    and a: "acceleration (longitudinal command_example) = Finite (3 / 2)"
    by (simp_all add: reverse_example_def command_example_def)
  have r: "fp_neg (fp_convert binary32 (fp_add binary64 (Finite (3 / 2)) (Finite (1 / 4))))
             = Finite (- (7 / 4))"
    using float_sum_examples(2) by (simp only: float_sum_def fp_neg_def ieee.case)
  have "input (vehicle_model_ptr_m (set_input reverse_example command_example (Finite (1 / 4))))
          ! 0
        = fp_neg (fp_convert binary32 (fp_add binary64 (Finite (3 / 2)) (Finite (1 / 4))))"
    using set_input_acceleration_rounded [OF h, of command_example "Finite (1 / 4)"]
    by (simp only: g a gear_constants_distinct if_False if_True simp_thms)
  with h r show ?thesis by (simp only: simp_thms)
qed

lemma add_measurement_noise_velocities:
  "twist_linear_x (fst (add_measurement_noise gy cq n odom vel steer))
     = fp_add binary64 (twist_linear_x odom) (velocity_noise_sample n)"
  "longitudinal_velocity (fst (snd (add_measurement_noise gy cq n odom vel steer)))
     = fp_convert binary32 (fp_add binary64 (longitudinal_velocity vel) (velocity_noise_sample n))"
  by (simp_all add: add_measurement_noise_def velocity_noise_sample_def Let_def
      split: prod.splits)

lemma small_noise_sample: "velocity_noise_sample small_noise = Finite small_step"
  by (simp add: velocity_noise_sample_def small_noise_def)

lemma small_noise_velocities:
  "twist_linear_x
     (fst (add_measurement_noise id id small_noise unit_odometry unit_velocity zero_steer))
     = Finite (1 + small_step)"
  "longitudinal_velocity
     (fst (snd (add_measurement_noise id id small_noise unit_odometry unit_velocity
        zero_steer)))
     = Finite 1"
proof -
  have t: "twist_linear_x unit_odometry = Finite 1"
    and v: "longitudinal_velocity unit_velocity = Finite 1"
    by (simp_all add: unit_odometry_def unit_velocity_def)
  show "twist_linear_x
     (fst (add_measurement_noise id id small_noise unit_odometry unit_velocity zero_steer))
     = Finite (1 + small_step)"
    by (simp only: add_measurement_noise_velocities small_noise_sample t fp_add.simps
        round_small_sum)
  show "longitudinal_velocity
     (fst (snd (add_measurement_noise id id small_noise unit_odometry unit_velocity
        zero_steer)))
     = Finite 1"
    by (simp only: add_measurement_noise_velocities small_noise_sample v fp_add.simps
        round_small_sum fp_convert_def ieee.case)
qed

text \<open>
  C10, as stated. The odometry and the velocity report agree on the velocity \<open>1\<close>; after
  the noise \<open>2^-30\<close> the odometry has \<open>1 + 2^-30\<close> and the report, a \<open>float32\<close>, has \<open>1\<close>:
  the two are no longer equal, and their difference is no longer zero.
\<close>

theorem add_measurement_noise_velocity_counterexample:
  "twist_linear_x unit_odometry = longitudinal_velocity unit_velocity
   \<and> twist_linear_x
       (fst (add_measurement_noise id id small_noise unit_odometry unit_velocity zero_steer))
       = Finite (1 + small_step)
   \<and> longitudinal_velocity
       (fst (snd (add_measurement_noise id id small_noise unit_odometry unit_velocity
          zero_steer)))
       = Finite 1
   \<and> Finite (1 + small_step) \<noteq> Finite 1"
proof -
  have "twist_linear_x unit_odometry = longitudinal_velocity unit_velocity"
    by (simp add: unit_odometry_def unit_velocity_def)
  moreover have "Finite (1 + small_step) \<noteq> Finite 1"
    by (simp add: small_step_def)
  ultimately show ?thesis
    using small_noise_velocities by blast
qed

text \<open>
  C10, amended. \<open>add_measurement_noise\<close> draws the velocity noise once (its third draw)
  and adds that one sample to the odometry's longitudinal twist, in double precision, and
  to the velocity report's longitudinal velocity, where the sum is rounded to the
  \<open>float32\<close> of the field. The difference of the two velocities is therefore kept only up
  to that rounding: when the two were equal before, the report's velocity afterwards is
  the odometry's velocity rounded to single precision.
\<close>

theorem add_measurement_noise_velocity_rounded:
  "(case add_measurement_noise getYaw createQuaternionFromYaw n odom vel steer of
      (odom', vel', steer', n') \<Rightarrow>
        twist_linear_x odom'
          = fp_add binary64 (twist_linear_x odom) (velocity_noise_sample n)
        \<and> longitudinal_velocity vel'
            = fp_convert binary32
                (fp_add binary64 (longitudinal_velocity vel) (velocity_noise_sample n))
        \<and> (longitudinal_velocity vel = twist_linear_x odom
             \<longrightarrow> longitudinal_velocity vel' = fp_convert binary32 (twist_linear_x odom')))"
proof (cases "add_measurement_noise getYaw createQuaternionFromYaw n odom vel steer")
  case (fields odom' vel' steer' n')
  have "twist_linear_x odom' = fp_add binary64 (twist_linear_x odom) (velocity_noise_sample n)"
    and "longitudinal_velocity vel'
           = fp_convert binary32
               (fp_add binary64 (longitudinal_velocity vel) (velocity_noise_sample n))"
    using add_measurement_noise_velocities [of getYaw createQuaternionFromYaw n odom vel steer]
    by (simp_all add: fields)
  then show ?thesis
    by (simp add: fields)
qed

theorem add_measurement_noise_velocity_rounded_witness:
  "longitudinal_velocity unit_velocity = twist_linear_x unit_odometry
   \<and> longitudinal_velocity
       (fst (snd (add_measurement_noise id id small_noise unit_odometry unit_velocity
          zero_steer)))
       = fp_convert binary32
           (twist_linear_x
              (fst (add_measurement_noise id id small_noise unit_odometry unit_velocity
                 zero_steer)))"
proof -
  have h: "longitudinal_velocity unit_velocity = twist_linear_x unit_odometry"
    by (simp add: unit_velocity_def unit_odometry_def)
  show ?thesis
    using h add_measurement_noise_velocity_rounded
      [where getYaw = id and createQuaternionFromYaw = id and n = small_noise
         and odom = unit_odometry and vel = unit_velocity and steer = zero_steer]
    by (simp add: case_prod_unfold)
qed


section \<open>Traffic priority\<close>

text \<open>
  C6. \<open>getTrafficPrioritizedLevel\<close> returns one of the three levels: fully prioritized for
  a red signal or an arrow, partially prioritized for amber, not prioritized for green,
  and not prioritized when the lane's signal state is unknown or absent from the map.
\<close>

theorem getTrafficPrioritizedLevel_levels:
  "(getTrafficPrioritizedLevel lane tl_infos = FULLY_PRIORITIZED
      \<or> getTrafficPrioritizedLevel lane tl_infos = PARTIALLY_PRIORITIZED
      \<or> getTrafficPrioritizedLevel lane tl_infos = NOT_PRIORITIZED)
   \<and> getTrafficPrioritizedLevel lane (tl_infos(lane \<mapsto> Red)) = FULLY_PRIORITIZED
   \<and> getTrafficPrioritizedLevel lane (tl_infos(lane \<mapsto> Arrow)) = FULLY_PRIORITIZED
   \<and> getTrafficPrioritizedLevel lane (tl_infos(lane \<mapsto> Amber)) = PARTIALLY_PRIORITIZED
   \<and> getTrafficPrioritizedLevel lane (tl_infos(lane \<mapsto> Green)) = NOT_PRIORITIZED
   \<and> getTrafficPrioritizedLevel lane (tl_infos(lane \<mapsto> Unknown)) = NOT_PRIORITIZED
   \<and> getTrafficPrioritizedLevel lane (tl_infos(lane := None)) = NOT_PRIORITIZED"
proof -
  have "getTrafficPrioritizedLevel lane tl_infos = FULLY_PRIORITIZED
      \<or> getTrafficPrioritizedLevel lane tl_infos = PARTIALLY_PRIORITIZED
      \<or> getTrafficPrioritizedLevel lane tl_infos = NOT_PRIORITIZED"
    by (cases "getTrafficPrioritizedLevel lane tl_infos") simp_all
  then show ?thesis
    by (simp add: getTrafficPrioritizedLevel_def)
qed


section \<open>Stuck vehicles\<close>

lemma set_stuck_vehicles:
  "set (stuck_vehicles intersects objs area thr) =
     {obj \<in> set objs. object_speed obj < thr \<and> intersects (footprint obj) area}"
  by (induction objs) auto

text \<open>
  C2. The objects that \<open>checkStuckVehicleInIntersection\<close> classifies as stuck (those it
  adds to the stuck targets) are objects of the input whose speed is below the threshold
  and whose footprint overlaps the detection area; an object faster than the threshold is
  never among them, whatever its footprint; and the check answers true exactly when some
  object is slow and overlapping.
\<close>

theorem checkStuckVehicleInIntersection_classifies:
  "(case checkStuckVehicleInIntersection intersects objects area thr debug_data of
      (found, debug_data') \<Rightarrow>
        stuck_targets debug_data'
          = stuck_targets debug_data @ stuck_vehicles intersects objects area thr
        \<and> found = (stuck_vehicles intersects objects area thr \<noteq> []))
   \<and> (\<forall>obj \<in> set (stuck_vehicles intersects objects area thr).
         obj \<in> set objects \<and> object_speed obj < thr \<and> intersects (footprint obj) area)
   \<and> (\<forall>obj \<in> set objects.
         thr < object_speed obj \<longrightarrow> obj \<notin> set (stuck_vehicles intersects objects area thr))
   \<and> (stuck_vehicles intersects objects area thr \<noteq> []
        \<longleftrightarrow> (\<exists>obj \<in> set objects. object_speed obj < thr \<and> intersects (footprint obj) area))"
proof -
  have "stuck_vehicles intersects objects area thr \<noteq> []
        \<longleftrightarrow> set (stuck_vehicles intersects objects area thr) \<noteq> {}"
    by simp
  also have "\<dots> \<longleftrightarrow> (\<exists>obj \<in> set objects. object_speed obj < thr \<and> intersects (footprint obj) area)"
    unfolding set_stuck_vehicles by blast
  finally show ?thesis
    by (simp add: checkStuckVehicleInIntersection_def Let_def set_stuck_vehicles)
qed

theorem checkStuckVehicleInIntersection_classifies_witness:
  "moving_inside \<notin> set (stuck_vehicles cell_in
       [moving_inside, standing_inside, standing_outside] {1, 2} (1 / 2))
   \<and> cell_in (footprint moving_inside) {1, 2}
   \<and> stuck_vehicles cell_in [moving_inside, standing_inside, standing_outside] {1, 2} (1 / 2)
       \<noteq> []
   \<and> checkStuckVehicleInIntersection cell_in [moving_inside, standing_inside, standing_outside]
       {1, 2} (1 / 2) \<lparr>stuck_targets = []\<rparr>
       = (True, \<lparr>stuck_targets = [standing_inside]\<rparr>)"
proof -
  let ?objs = "[moving_inside, standing_inside, standing_outside]"
  note fact = checkStuckVehicleInIntersection_classifies
    [where intersects = cell_in and objects = ?objs and area = "{1, 2}" and thr = "1 / 2"
       and debug_data = "\<lparr>stuck_targets = []\<rparr>"]
  have fast: "(1 / 2 :: real) < object_speed moving_inside" "moving_inside \<in> set ?objs"
    by (simp_all add: moving_inside_def)
  have slow: "standing_inside \<in> set ?objs" "object_speed standing_inside < 1 / 2"
    "cell_in (footprint standing_inside) {1, 2}"
    by (simp_all add: standing_inside_def cell_in_def)
  have 1: "moving_inside \<notin> set (stuck_vehicles cell_in ?objs {1, 2} (1 / 2))"
    using fact fast by blast
  have 2: "stuck_vehicles cell_in ?objs {1, 2} (1 / 2) \<noteq> []"
    using fact slow by blast
  have 3: "cell_in (footprint moving_inside) {1, 2}"
    by (simp add: moving_inside_def cell_in_def)
  have 4: "checkStuckVehicleInIntersection cell_in ?objs {1, 2} (1 / 2) \<lparr>stuck_targets = []\<rparr>
             = (True, \<lparr>stuck_targets = [standing_inside]\<rparr>)"
    by (simp add: checkStuckVehicleInIntersection_def moving_inside_def standing_inside_def
        standing_outside_def cell_in_def)
  from 1 2 3 4 show ?thesis by simp
qed


section \<open>Interpolated path\<close>








section \<open>First conflicting and attention area\<close>

lemma earliest_area_None:
  "earliest_area entry areas = None \<longleftrightarrow> (\<forall>a \<in> set areas. entry a = None)"
  by (induction areas) (auto split: option.splits)

lemma earliest_area_Some:
  "earliest_area entry areas = Some (i, a) \<Longrightarrow>
     a \<in> set areas \<and> entry a = Some i \<and> (\<forall>b \<in> set areas. \<forall>j. entry b = Some j \<longrightarrow> i \<le> j)"
proof (induction areas arbitrary: i a)
  case Nil
  then show ?case by simp
next
  case (Cons x xs)
  show ?case
  proof (cases "entry x")
    case None
    with Cons.prems have "earliest_area entry xs = Some (i, a)" by simp
    from Cons.IH [OF this] None show ?thesis by simp
  next
    case (Some k)
    note x = Some
    show ?thesis
    proof (cases "earliest_area entry xs")
      case None
      then have "\<forall>b \<in> set xs. entry b = None" by (simp add: earliest_area_None)
      with None x Cons.prems show ?thesis by simp
    next
      case (Some jb)
      obtain j b where jb: "jb = (j, b)" by (cases jb)
      from Cons.IH [of j b] Some jb
      have ih: "b \<in> set xs" "entry b = Some j" "\<forall>c \<in> set xs. \<forall>l. entry c = Some l \<longrightarrow> j \<le> l"
        by simp_all
      show ?thesis
      proof (cases "j < k")
        case True
        with x Some jb Cons.prems have eq: "i = j" "a = b" by simp_all
        have "\<forall>c \<in> set (x # xs). \<forall>l. entry c = Some l \<longrightarrow> j \<le> l"
          using ih(3) x True by simp
        with ih(1,2) show ?thesis unfolding eq by simp
      next
        case False
        with x Some jb Cons.prems have eq: "i = k" "a = x" by simp_all
        have "j \<le> l" if "c \<in> set xs" "entry c = Some l" for c l
          using ih(3) that by blast
        then have "k \<le> l" if "c \<in> set xs" "entry c = Some l" for c l
          using that False by (meson leI le_trans)
        then have "\<forall>c \<in> set (x # xs). \<forall>l. entry c = Some l \<longrightarrow> k \<le> l"
          using x by simp
        with x show ?thesis unfolding eq by simp
      qed
    qed
  qed
qed

lemma first_area_earliest:
  assumes "first_area entry areas = Some a"
  shows "a \<in> set areas \<and> (\<exists>i. entry a = Some i \<and> (\<forall>b \<in> set areas. \<forall>j. entry b = Some j \<longrightarrow> i \<le> j))"
proof -
  from assms obtain ia where ia: "earliest_area entry areas = Some ia" "snd ia = a"
    unfolding first_area_def map_option_eq_Some by blast
  then have "earliest_area entry areas = Some (fst ia, a)"
    by (cases ia) simp
  from earliest_area_Some [OF this] show ?thesis by blast
qed

lemma recompute_first_areas:
  "first_conflicting_area (fst (recompute_IntersectionLanelets entry p ids objective cache)) =
     (case first_conflicting_cache cache ids of
        Some a \<Rightarrow> Some a
      | None \<Rightarrow> first_area entry (conflicting_area_m objective))"
  "first_attention_area (fst (recompute_IntersectionLanelets entry p ids objective cache)) =
     (case first_attention_cache cache ids of
        Some a \<Rightarrow> Some a
      | None \<Rightarrow> first_area entry (attention_area_m objective))"
  "first_conflicting_cache (snd (recompute_IntersectionLanelets entry p ids objective cache)) ids
     = first_conflicting_area (fst (recompute_IntersectionLanelets entry p ids objective cache))"
  "first_attention_cache (snd (recompute_IntersectionLanelets entry p ids objective cache)) ids
     = first_attention_area (fst (recompute_IntersectionLanelets entry p ids objective cache))"
  by (simp_all add: recompute_IntersectionLanelets_def update_def Let_def
      first_conflicting_area_def first_attention_area_def split: option.splits)

text \<open>
  C3, as stated. In a first computation the only conflicting polygon is \<open>5\<close>, which the
  path does not enter, so the first conflicting area stays empty. In the second, with the
  same associative ids \<open>{1, 2}\<close> and the same path, the conflicting polygons are \<open>5, 7\<close>
  and the first conflicting area becomes \<open>7\<close>: the second value is not the first.
\<close>

theorem first_areas_recomputed_counterexample:
  "first_conflicting_area
     (fst (recompute_IntersectionLanelets enters_7_9 False {1, 2} objective_5
        FirstAreaCache_init)) = None
   \<and> first_conflicting_area
       (fst (recompute_IntersectionLanelets enters_7_9 False {1, 2} objective_5_7
          (snd (recompute_IntersectionLanelets enters_7_9 False {1, 2} objective_5
             FirstAreaCache_init)))) = Some 7"
  by (simp add: recompute_first_areas FirstAreaCache_init_def objective_5_def
      objective_5_7_def IntersectionLanelets_init_def first_area_def enters_7_9_def)

text \<open>
  C3, amended. Of two successive computations with the same associative ids, the second
  returns every first area that the first one found, whatever the polygons and the path
  of the second cycle are; a first area that the first computation left empty is searched
  again among the polygons of the second.
\<close>

theorem first_areas_stable:
  "(case recompute_IntersectionLanelets entry1 prio1 ids objective1 cache of
      (s1, cache1) \<Rightarrow>
        (case recompute_IntersectionLanelets entry2 prio2 ids objective2 cache1 of
           (s2, cache2) \<Rightarrow>
             (first_conflicting_area s1 \<noteq> None
                \<longrightarrow> first_conflicting_area s2 = first_conflicting_area s1)
             \<and> (first_attention_area s1 \<noteq> None
                  \<longrightarrow> first_attention_area s2 = first_attention_area s1)
             \<and> (first_conflicting_area s1 = None
                  \<longrightarrow> first_conflicting_area s2
                        = first_area entry2 (conflicting_area_m objective2))
             \<and> (first_attention_area s1 = None
                  \<longrightarrow> first_attention_area s2
                        = first_area entry2 (attention_area_m objective2))))"
proof -
  obtain s1 cache1 where r1:
    "recompute_IntersectionLanelets entry1 prio1 ids objective1 cache = (s1, cache1)"
    by (cases "recompute_IntersectionLanelets entry1 prio1 ids objective1 cache")
  obtain s2 cache2 where r2:
    "recompute_IntersectionLanelets entry2 prio2 ids objective2 cache1 = (s2, cache2)"
    by (cases "recompute_IntersectionLanelets entry2 prio2 ids objective2 cache1")
  have c1: "first_conflicting_cache cache1 ids = first_conflicting_area s1"
    "first_attention_cache cache1 ids = first_attention_area s1"
    using recompute_first_areas(3,4) [of entry1 prio1 ids objective1 cache] r1 by simp_all
  have s2: "first_conflicting_area s2 =
              (case first_conflicting_cache cache1 ids of
                 Some a \<Rightarrow> Some a
               | None \<Rightarrow> first_area entry2 (conflicting_area_m objective2))"
    "first_attention_area s2 =
              (case first_attention_cache cache1 ids of
                 Some a \<Rightarrow> Some a
               | None \<Rightarrow> first_area entry2 (attention_area_m objective2))"
    using recompute_first_areas(1,2) [of entry2 prio2 ids objective2 cache1] r2 by simp_all
  have "first_conflicting_area s1 \<noteq> None
          \<longrightarrow> first_conflicting_area s2 = first_conflicting_area s1"
    and "first_attention_area s1 \<noteq> None
          \<longrightarrow> first_attention_area s2 = first_attention_area s1"
    and "first_conflicting_area s1 = None
          \<longrightarrow> first_conflicting_area s2 = first_area entry2 (conflicting_area_m objective2)"
    and "first_attention_area s1 = None
          \<longrightarrow> first_attention_area s2 = first_area entry2 (attention_area_m objective2)"
    using c1 s2 by (auto split: option.splits)
  then show ?thesis
    by (simp add: r1 r2)
qed

theorem first_areas_stable_witness:
  "first_conflicting_area
     (fst (recompute_IntersectionLanelets enters_7_9 False {1, 2} objective_5_7
        FirstAreaCache_init)) = Some 7
   \<and> first_conflicting_area
       (fst (recompute_IntersectionLanelets enters_7_9 True {1, 2} objective_9
          (snd (recompute_IntersectionLanelets enters_7_9 False {1, 2} objective_5_7
             FirstAreaCache_init)))) = Some 7
   \<and> first_area enters_7_9 (conflicting_area_m objective_9) = Some 9"
proof -
  let ?r1 = "recompute_IntersectionLanelets enters_7_9 False {1, 2} objective_5_7
               FirstAreaCache_init"
  let ?r2 = "recompute_IntersectionLanelets enters_7_9 True {1, 2} objective_9 (snd ?r1)"
  have one: "first_conflicting_area (fst ?r1) = Some 7"
    by (simp add: recompute_first_areas FirstAreaCache_init_def objective_5_7_def
        IntersectionLanelets_init_def first_area_def enters_7_9_def)
  have live: "first_area enters_7_9 (conflicting_area_m objective_9) = Some 9"
    by (simp add: objective_9_def IntersectionLanelets_init_def first_area_def enters_7_9_def)
  have "first_conflicting_area (fst ?r1) \<noteq> None
          \<longrightarrow> first_conflicting_area (fst ?r2) = first_conflicting_area (fst ?r1)"
    using first_areas_stable
      [where ?entry1.0 = enters_7_9 and ?prio1.0 = False and ids = "{1, 2}"
         and ?objective1.0 = objective_5_7 and cache = FirstAreaCache_init
         and ?entry2.0 = enters_7_9 and ?prio2.0 = True and ?objective2.0 = objective_9]
    by (simp add: case_prod_unfold)
  with one live show ?thesis by simp
qed



section \<open>Stop lines\<close>














end
